theory Spec2Isabelle
  imports Main
begin

section \<open>Query algebra of \<^verbatim>\<open>repoze/catalog/query.py\<close>\<close>

subsection \<open>Data model\<close>

text \<open>
  The subclasses of \<^verbatim>\<open>Comparator\<close> and of \<^verbatim>\<open>Operator\<close>. The classes \<^verbatim>\<open>All\<close> and
  \<^verbatim>\<open>Union\<close> carry a suffix, their names being constants of HOL.
\<close>

datatype comparator = Contains | Eq | NotEq | Gt | Lt | Ge | Le | Any | All_cmp

datatype operator = Union_op | Intersection | Difference

text \<open>
  Python objects as far as the module handles them: \<^verbatim>\<open>None\<close>, strings, numbers (integers
  only), lists, tuples, an \<^verbatim>\<open>ast.Name\<close> node (with its \<^verbatim>\<open>id\<close>) and instances of \<^verbatim>\<open>Query\<close>.
  A \<^verbatim>\<open>Comparator\<close> holds \<^verbatim>\<open>index_name\<close> and \<^verbatim>\<open>value\<close>, an \<^verbatim>\<open>Operator\<close> holds
  \<^verbatim>\<open>left\<close> and \<^verbatim>\<open>right\<close>. Index names are strings and the children of an operator are
  queries.
\<close>

datatype pyval =
    NoneVal
  | Str string
  | Num int
  | PyList "pyval list"
  | PyTuple "pyval list"
  | AstName string
  | QueryVal query
and query =
    Comparator comparator string pyval
  | Operator operator query query

subsection \<open>The optimizer \<^verbatim>\<open>_group_any_and_all\<close>\<close>

text \<open>
  \<^verbatim>\<open>group(node, index_name, values)\<close>. The index name handed over is \<^verbatim>\<open>None\<close> or a string.
  With \<^verbatim>\<open>None\<close> the list of values is empty (lemma \<open>visit_None_values\<close> below), so the
  branch for \<^verbatim>\<open>None\<close> with more than one value is never taken; it returns the node.
\<close>

definition group_node :: "query \<Rightarrow> string option \<Rightarrow> pyval list \<Rightarrow> query" where
  "group_node node index_name values =
     (if length values > 1 then
        (case node of
           Operator Intersection l r \<Rightarrow>
             (case index_name of
                Some i \<Rightarrow> Comparator All_cmp i (PyList values)
              | None \<Rightarrow> node)
         | Operator Union_op l r \<Rightarrow>
             (case index_name of
                Some i \<Rightarrow> Comparator Any i (PyList values)
              | None \<Rightarrow> node)
         | _ \<Rightarrow> node)
      else node)"

text \<open>
  \<^verbatim>\<open>visit(node)\<close> returns the pair \<^verbatim>\<open>(index, values)\<close> and rewrites the children of the
  node in place; the model returns the pair together with the node as it is after the call.
\<close>

fun visit :: "query \<Rightarrow> (string option \<times> pyval list) \<times> query" where
  "visit (Operator k left right) =
     (case visit left of ((left_index, left_values), left') \<Rightarrow>
      case visit right of ((right_index, right_values), right') \<Rightarrow>
        if left_index \<noteq> right_index
        then ((None, []),
              Operator k (group_node left' left_index left_values)
                         (group_node right' right_index right_values))
        else ((left_index, left_values @ right_values), Operator k left' right'))"
| "visit (Comparator c index_name v) =
     (if c = Eq then ((Some index_name, [v]), Comparator c index_name v)
      else ((None, []), Comparator c index_name v))"

definition group_any_and_all :: "query \<Rightarrow> query" where
  "group_any_and_all tree =
     (case visit tree of ((index, values), tree') \<Rightarrow> group_node tree' index values)"

subsection \<open>Runs of equality tests, as the specification describes them\<close>

text \<open>
  \<open>eq_run k i t\<close>: every operator node of \<open>t\<close> is of kind \<open>k\<close> and every leaf is \<^verbatim>\<open>Eq\<close> on
  the index \<open>i\<close>. \<open>leaf_values t\<close>: the values of the leaves of \<open>t\<close> from left to right.
\<close>

fun eq_run :: "operator \<Rightarrow> string \<Rightarrow> query \<Rightarrow> bool" where
  "eq_run k i (Comparator c n v) = (c = Eq \<and> n = i)"
| "eq_run k i (Operator k' l r) = (k' = k \<and> eq_run k i l \<and> eq_run k i r)"

fun leaf_values :: "query \<Rightarrow> pyval list" where
  "leaf_values (Comparator c n v) = [v]"
| "leaf_values (Operator k l r) = leaf_values l @ leaf_values r"

fun is_Operator :: "query \<Rightarrow> bool" where
  "is_Operator (Operator k l r) = True"
| "is_Operator (Comparator c n v) = False"

subsection \<open>Errors\<close>

text \<open>
  The class of a Python object, as \<^verbatim>\<open>type(x)\<close> returns it.
\<close>

datatype pytype =
    T_NoneType | T_str | T_int | T_list | T_tuple | T_ast_Name
  | T_Comparator comparator
  | T_Operator operator

fun type_of :: "pyval \<Rightarrow> pytype" where
  "type_of NoneVal = T_NoneType"
| "type_of (Str s) = T_str"
| "type_of (Num n) = T_int"
| "type_of (PyList xs) = T_list"
| "type_of (PyTuple xs) = T_tuple"
| "type_of (AstName n) = T_ast_Name"
| "type_of (QueryVal (Comparator c n v)) = T_Comparator c"
| "type_of (QueryVal (Operator k l r)) = T_Operator k"

text \<open>
  The exceptions of Python that the module raises or lets through, each with its argument.
  \<open>TypeError operator t1 t2\<close> stands for the message
  \<^verbatim>\<open>"TypeError: unsupported operand types for %s: %s %s" % (operator, t1, t2)\<close>.
\<close>

datatype error =
    SyntaxError
  | ValueError string
  | NameError string
  | KeyError string
  | IndexError string
  | TypeError string pytype pytype

subsection \<open>Combinators of \<^verbatim>\<open>Query\<close>\<close>

text \<open>
  \<^verbatim>\<open>_check_type(self, operator, operand)\<close> raises unless the operand is an instance of
  \<^verbatim>\<open>Query\<close>; the model returns the operand as the query it is.
\<close>

definition Query_check_type :: "query \<Rightarrow> string \<Rightarrow> pyval \<Rightarrow> error + query" where
  "Query_check_type self operator operand =
     (case operand of
        QueryVal q \<Rightarrow> Inr q
      | _ \<Rightarrow> Inl (TypeError operator (type_of (QueryVal self)) (type_of operand)))"

definition Query_and :: "query \<Rightarrow> pyval \<Rightarrow> error + query" where
  "Query_and self right =
     (case Query_check_type self ''set intersection'' right of
        Inl e \<Rightarrow> Inl e
      | Inr r \<Rightarrow> Inr (Operator Intersection self r))"

definition Query_or :: "query \<Rightarrow> pyval \<Rightarrow> error + query" where
  "Query_or self right =
     (case Query_check_type self ''set union'' right of
        Inl e \<Rightarrow> Inl e
      | Inr r \<Rightarrow> Inr (Operator Union_op self r))"

definition Query_sub :: "query \<Rightarrow> pyval \<Rightarrow> error + query" where
  "Query_sub self right =
     (case Query_check_type self ''set difference'' right of
        Inl e \<Rightarrow> Inl e
      | Inr r \<Rightarrow> Inr (Operator Difference self r))"

fun is_Query :: "pyval \<Rightarrow> bool" where
  "is_Query (QueryVal q) = True"
| "is_Query _ = False"

subsection \<open>Evaluation against a catalog\<close>

text \<open>
  A result set of the \<^verbatim>\<open>BTrees\<close> family \<^verbatim>\<open>IF\<close>: document ids with their weights. An index
  answers \<^verbatim>\<open>applyEq(value)\<close>, \<^verbatim>\<open>applyGt(value)\<close>, ... (one method per comparator class,
  here one function of the class and the value); a catalog maps index names to indexes.
\<close>

type_synonym 'w resultset = "(int \<times> 'w) list"

type_synonym 'w index = "comparator \<Rightarrow> pyval \<Rightarrow> 'w resultset"

type_synonym 'w catalog = "string \<Rightarrow> 'w index option"

text \<open>
  The weighted merges of a \<^verbatim>\<open>BTrees\<close> family (\<^verbatim>\<open>family.IF.weightedUnion\<close>,
  \<^verbatim>\<open>family.IF.weightedIntersection\<close>) are parameters: each returns a pair of a weight and a
  result set.
\<close>

record 'w family =
  weightedUnion :: "'w resultset \<Rightarrow> 'w resultset \<Rightarrow> 'w \<times> 'w resultset"
  weightedIntersection :: "'w resultset \<Rightarrow> 'w resultset \<Rightarrow> 'w \<times> 'w resultset"

text \<open>
  Modelled from the spec: \<^verbatim>\<open>family.IF.Set()\<close>, the empty set of the weighted set primitive
  (\<^verbatim>\<open>empty_set()\<close>), which is not part of the sources.
\<close>

definition IF_Set :: "'w resultset" where
  "IF_Set = []"

text \<open>
  Modelled from the spec: \<^verbatim>\<open>family.IF.difference(left, right)\<close>, which is not part of the
  sources: left minus any document id present in right, weights from left unchanged.
\<close>

definition IF_difference :: "'w resultset \<Rightarrow> 'w resultset \<Rightarrow> 'w resultset" where
  "IF_difference left right = filter (\<lambda>(docid, w). docid \<notin> fst ` set right) left"

text \<open>
  What an evaluation asks of its collaborators, in order: \<^verbatim>\<open>catalog[index_name]\<close>, and the
  call of the method of the index for a comparator class with a value.
\<close>

datatype event = GetIndex string | IndexApply comparator string pyval

text \<open>
  \<^verbatim>\<open>apply(self, catalog)\<close> of the comparator and operator classes. The result is the
  returned set or the exception raised, with the events of the evaluation. The family is
  the class attribute \<^verbatim>\<open>Operator.family\<close>.
\<close>

fun query_apply :: "'w family \<Rightarrow> 'w catalog \<Rightarrow> query \<Rightarrow> (error + 'w resultset) \<times> event list" where
  "query_apply fam catalog (Comparator c index_name v) =
     (case catalog index_name of
        None \<Rightarrow> (Inl (KeyError index_name), [GetIndex index_name])
      | Some index \<Rightarrow> (Inr (index c v), [GetIndex index_name, IndexApply c index_name v]))"
| "query_apply fam catalog (Operator Union_op l r) =
     (case query_apply fam catalog l of
        (Inl e, evl) \<Rightarrow> (Inl e, evl)
      | (Inr left, evl) \<Rightarrow>
          (case query_apply fam catalog r of
             (Inl e, evr) \<Rightarrow> (Inl e, evl @ evr)
           | (Inr right, evr) \<Rightarrow> (Inr (snd (weightedUnion fam left right)), evl @ evr)))"
| "query_apply fam catalog (Operator Intersection l r) =
     (case query_apply fam catalog l of
        (Inl e, evl) \<Rightarrow> (Inl e, evl)
      | (Inr left, evl) \<Rightarrow>
          if length left = 0 then (Inr IF_Set, evl)
          else
            (case query_apply fam catalog r of
               (Inl e, evr) \<Rightarrow> (Inl e, evl @ evr)
             | (Inr right, evr) \<Rightarrow>
                 if length right = 0 then (Inr IF_Set, evl @ evr)
                 else (Inr (snd (weightedIntersection fam left right)), evl @ evr)))"
| "query_apply fam catalog (Operator Difference l r) =
     (case query_apply fam catalog l of
        (Inl e, evl) \<Rightarrow> (Inl e, evl)
      | (Inr left, evl) \<Rightarrow>
          if length left = 0 then (Inr IF_Set, evl)
          else
            (case query_apply fam catalog r of
               (Inl e, evr) \<Rightarrow> (Inl e, evl @ evr)
             | (Inr right, evr) \<Rightarrow>
                 if length right = 0 then (Inr left, evl @ evr)
                 else (Inr (IF_difference left right), evl @ evr)))"

subsection \<open>The accumulator \<^verbatim>\<open>SearchQuery\<close>\<close>

text \<open>
  The attributes \<^verbatim>\<open>catalog\<close>, \<^verbatim>\<open>family\<close> and \<^verbatim>\<open>_results\<close> (\<^verbatim>\<open>None\<close> until set).
\<close>

record 'w SearchQuery =
  sq_catalog :: "'w catalog"
  sq_family :: "'w family"
  sq_results :: "'w resultset option"

text \<open>The getter of the property \<^verbatim>\<open>results\<close>.\<close>

definition results :: "'w SearchQuery \<Rightarrow> 'w resultset" where
  "results self = (case sq_results self of None \<Rightarrow> IF_Set | Some r \<Rightarrow> r)"

text \<open>
  \<^verbatim>\<open>__init__(self, catalog, query=None, family=None)\<close>; \<open>family32\<close> is \<^verbatim>\<open>BTrees.family32\<close>,
  the class attribute of both \<^verbatim>\<open>Operator\<close> and \<^verbatim>\<open>SearchQuery\<close>.
\<close>

definition SearchQuery_init ::
  "'w family \<Rightarrow> 'w catalog \<Rightarrow> query option \<Rightarrow> 'w family option
     \<Rightarrow> (error + 'w SearchQuery) \<times> event list" where
  "SearchQuery_init family32 catalog query fam =
     (let self_family = (case fam of None \<Rightarrow> family32 | Some f \<Rightarrow> f) in
      case query of
        None \<Rightarrow>
          (Inr \<lparr>sq_catalog = catalog, sq_family = self_family, sq_results = None\<rparr>, [])
      | Some q \<Rightarrow>
          (case query_apply family32 catalog q of
             (Inl e, t) \<Rightarrow> (Inl e, t)
           | (Inr res, t) \<Rightarrow>
               (Inr \<lparr>sq_catalog = catalog, sq_family = self_family, sq_results = Some res\<rparr>,
                t)))"

definition SearchQuery_Or ::
  "'w family \<Rightarrow> 'w SearchQuery \<Rightarrow> query \<Rightarrow> (error + 'w SearchQuery) \<times> event list" where
  "SearchQuery_Or family32 self query =
     (case query_apply family32 (sq_catalog self) query of
        (Inl e, t) \<Rightarrow> (Inl e, t)
      | (Inr res, t) \<Rightarrow>
          if res \<noteq> [] then
            if length (results self) = 0 then (Inr (self\<lparr>sq_results := Some res\<rparr>), t)
            else
              (Inr (self\<lparr>sq_results :=
                      Some (snd (weightedUnion (sq_family self) (results self) res))\<rparr>), t)
          else (Inr self, t))"

definition SearchQuery_And ::
  "'w family \<Rightarrow> 'w SearchQuery \<Rightarrow> query \<Rightarrow> (error + 'w SearchQuery) \<times> event list" where
  "SearchQuery_And family32 self query =
     (if length (results self) = 0 then (Inr self, [])
      else
        (case query_apply family32 (sq_catalog self) query of
           (Inl e, t) \<Rightarrow> (Inl e, t)
         | (Inr res, t) \<Rightarrow>
             if res \<noteq> [] then
               (Inr (self\<lparr>sq_results :=
                       Some (snd (weightedIntersection (sq_family self) (results self) res))\<rparr>),
                t)
             else (Inr (self\<lparr>sq_results := Some IF_Set\<rparr>), t)))"

definition SearchQuery_Not ::
  "'w family \<Rightarrow> 'w SearchQuery \<Rightarrow> query \<Rightarrow> (error + 'w SearchQuery) \<times> event list" where
  "SearchQuery_Not family32 self query =
     (if length (results self) = 0 then (Inr self, [])
      else
        (case query_apply family32 (sq_catalog self) query of
           (Inl e, t) \<Rightarrow> (Inl e, t)
         | (Inr res, t) \<Rightarrow>
             if res \<noteq> [] then
               (Inr (self\<lparr>sq_results := Some (IF_difference (results self) res)\<rparr>), t)
             else (Inr self, t)))"

subsection \<open>The syntax trees of the host parser\<close>

text \<open>
  The node classes of the module \<^verbatim>\<open>ast\<close> (Python 2), named as there with the prefix
  \<open>ast_\<close>. \<open>ast_Compare left [(op, e), ...]\<close> is \<^verbatim>\<open>Compare(left, ops, comparators)\<close>, whose
  two lists have the same length. \<open>ast_Other cls children\<close> is a node of any other class, of
  that name, with its child nodes. The child nodes of a node, as \<^verbatim>\<open>ast.iter_child_nodes\<close>
  yields them, are its fields in the order of the constructor's arguments (for
  \<^verbatim>\<open>Compare\<close>: \<^verbatim>\<open>left\<close>, all of \<^verbatim>\<open>ops\<close>, all of \<^verbatim>\<open>comparators\<close>).
\<close>

datatype expr_context = ast_Load | ast_Store | ast_Del | ast_AugLoad | ast_AugStore | ast_Param

datatype boolop = ast_And | ast_Or

datatype binop =
    ast_Add | ast_Sub | ast_Mult | ast_Div | ast_Mod | ast_Pow | ast_LShift | ast_RShift
  | ast_BitOr | ast_BitXor | ast_BitAnd | ast_FloorDiv

datatype cmpop =
    ast_Eq | ast_NotEq | ast_Lt | ast_LtE | ast_Gt | ast_GtE | ast_Is | ast_IsNot | ast_In
  | ast_NotIn

datatype expr =
    ast_BoolOp boolop "expr list"
  | ast_BinOp expr binop expr
  | ast_Compare expr "(cmpop \<times> expr) list"
  | ast_Name string expr_context
  | ast_Str string
  | ast_Num int
  | ast_List "expr list" expr_context
  | ast_Tuple "expr list" expr_context
  | ast_Other string "expr list"

text \<open>A statement: \<^verbatim>\<open>ast.Expr(value)\<close>, or a statement of another class.\<close>

datatype stmt = ast_Expr expr | ast_OtherStmt string

fun expr_context_name :: "expr_context \<Rightarrow> string" where
  "expr_context_name ast_Load = ''Load''"
| "expr_context_name ast_Store = ''Store''"
| "expr_context_name ast_Del = ''Del''"
| "expr_context_name ast_AugLoad = ''AugLoad''"
| "expr_context_name ast_AugStore = ''AugStore''"
| "expr_context_name ast_Param = ''Param''"

fun binop_name :: "binop \<Rightarrow> string" where
  "binop_name ast_Add = ''Add''"
| "binop_name ast_Sub = ''Sub''"
| "binop_name ast_Mult = ''Mult''"
| "binop_name ast_Div = ''Div''"
| "binop_name ast_Mod = ''Mod''"
| "binop_name ast_Pow = ''Pow''"
| "binop_name ast_LShift = ''LShift''"
| "binop_name ast_RShift = ''RShift''"
| "binop_name ast_BitOr = ''BitOr''"
| "binop_name ast_BitXor = ''BitXor''"
| "binop_name ast_BitAnd = ''BitAnd''"
| "binop_name ast_FloorDiv = ''FloorDiv''"

fun cmpop_name :: "cmpop \<Rightarrow> string" where
  "cmpop_name ast_Eq = ''Eq''"
| "cmpop_name ast_NotEq = ''NotEq''"
| "cmpop_name ast_Lt = ''Lt''"
| "cmpop_name ast_LtE = ''LtE''"
| "cmpop_name ast_Gt = ''Gt''"
| "cmpop_name ast_GtE = ''GtE''"
| "cmpop_name ast_Is = ''Is''"
| "cmpop_name ast_IsNot = ''IsNot''"
| "cmpop_name ast_In = ''In''"
| "cmpop_name ast_NotIn = ''NotIn''"

text \<open>\<^verbatim>\<open>operator.__name__\<close> of an operator class.\<close>

fun operator_name :: "operator \<Rightarrow> string" where
  "operator_name Union_op = ''Union''"
| "operator_name Intersection = ''Intersection''"
| "operator_name Difference = ''Difference''"

subsection \<open>The compiler \<^verbatim>\<open>_AstQuery\<close>\<close>

type_synonym names = "string \<Rightarrow> pyval option"

text \<open>The error of \<^verbatim>\<open>visit\<close> for a node class without a \<^verbatim>\<open>process_\<close> method.\<close>

definition unhandled :: "string \<Rightarrow> error" where
  "unhandled cls =
     ValueError (''Unable to parse expression.  Unhandled expression element: '' @ cls)"

text \<open>\<^verbatim>\<open>_index_name(self, node)\<close> and \<^verbatim>\<open>_value(self, node)\<close>.\<close>

definition AstQuery_index_name :: "pyval \<Rightarrow> error + string" where
  "AstQuery_index_name node =
     (case node of
        AstName n \<Rightarrow> Inr n
      | _ \<Rightarrow> Inl (ValueError ''Index name must be a name.''))"

definition AstQuery_value :: "names \<Rightarrow> pyval \<Rightarrow> error + pyval" where
  "AstQuery_value names node =
     (case node of
        AstName n \<Rightarrow> (case names n of Some v \<Rightarrow> Inr v | None \<Rightarrow> Inl (NameError n))
      | _ \<Rightarrow> Inr node)"

text \<open>
  Visiting the nodes that are not expressions: \<^verbatim>\<open>process_Load\<close> (returns \<^verbatim>\<open>None\<close>);
  \<^verbatim>\<open>process_Or\<close>, \<^verbatim>\<open>process_And\<close>; \<^verbatim>\<open>process_BitOr\<close>, \<^verbatim>\<open>process_BitAnd\<close>, \<^verbatim>\<open>process_Sub\<close>;
  \<^verbatim>\<open>process_Eq\<close>, ..., \<^verbatim>\<open>process_In\<close>. The classes without a method are unhandled.
\<close>

fun visit_expr_context :: "expr_context \<Rightarrow> error + pyval" where
  "visit_expr_context ast_Load = Inr NoneVal"
| "visit_expr_context c = Inl (unhandled (expr_context_name c))"

fun visit_boolop :: "boolop \<Rightarrow> operator" where
  "visit_boolop ast_Or = Union_op"
| "visit_boolop ast_And = Intersection"

fun visit_binop :: "binop \<Rightarrow> error + operator" where
  "visit_binop ast_BitOr = Inr Union_op"
| "visit_binop ast_BitAnd = Inr Intersection"
| "visit_binop ast_Sub = Inr Difference"
| "visit_binop op = Inl (unhandled (binop_name op))"

fun visit_cmpop :: "cmpop \<Rightarrow> error + comparator" where
  "visit_cmpop ast_Eq = Inr Eq"
| "visit_cmpop ast_NotEq = Inr NotEq"
| "visit_cmpop ast_Lt = Inr Lt"
| "visit_cmpop ast_LtE = Inr Le"
| "visit_cmpop ast_Gt = Inr Gt"
| "visit_cmpop ast_GtE = Inr Ge"
| "visit_cmpop ast_In = Inr Contains"
| "visit_cmpop op = Inl (unhandled (cmpop_name op))"

fun visit_cmpops :: "cmpop list \<Rightarrow> error + comparator list" where
  "visit_cmpops [] = Inr []"
| "visit_cmpops (op # ops) =
     (case visit_cmpop op of
        Inl e \<Rightarrow> Inl e
      | Inr c \<Rightarrow> (case visit_cmpops ops of Inl e \<Rightarrow> Inl e | Inr cs \<Rightarrow> Inr (c # cs)))"

text \<open>
  \<^verbatim>\<open>process_List(self, node, children)\<close>: the last child is the context; the loop replaces
  each name node by its value. \<^verbatim>\<open>process_Tuple\<close> makes a tuple of the list.
\<close>

fun resolve_names :: "names \<Rightarrow> pyval list \<Rightarrow> error + pyval list" where
  "resolve_names names [] = Inr []"
| "resolve_names names (x # l) =
     (case (case x of AstName n \<Rightarrow> AstQuery_value names x | _ \<Rightarrow> Inr x) of
        Inl e \<Rightarrow> Inl e
      | Inr y \<Rightarrow> (case resolve_names names l of Inl e \<Rightarrow> Inl e | Inr ys \<Rightarrow> Inr (y # ys)))"

definition process_List :: "names \<Rightarrow> pyval list \<Rightarrow> error + pyval" where
  "process_List names children =
     (case resolve_names names (butlast children) of
        Inl e \<Rightarrow> Inl e
      | Inr l \<Rightarrow> Inr (PyList l))"

definition process_Tuple :: "names \<Rightarrow> pyval list \<Rightarrow> error + pyval" where
  "process_Tuple names children =
     (case process_List names children of
        Inr (PyList l) \<Rightarrow> Inr (PyTuple l)
      | r \<Rightarrow> r)"

text \<open>
  \<^verbatim>\<open>process_Compare(self, node, children)\<close>. The children are the left operand, the classes
  for \<^verbatim>\<open>ops\<close> and the values of \<^verbatim>\<open>comparators\<close>, here the left operand and the pairs of
  a class and a value; unpacking them into three raises unless there is one pair. The
  arguments of the constructor are evaluated from left to right: the index name first.
\<close>

definition process_Compare :: "names \<Rightarrow> pyval \<Rightarrow> (comparator \<times> pyval) list \<Rightarrow> error + pyval" where
  "process_Compare names operand1 rest =
     (case rest of
        [] \<Rightarrow> Inl (ValueError ''need more than 1 value to unpack'')
      | [(operator, operand2)] \<Rightarrow>
          if operator = Contains then
            (case AstQuery_index_name operand2 of
               Inl e \<Rightarrow> Inl e
             | Inr n \<Rightarrow>
                 (case AstQuery_value names operand1 of
                    Inl e \<Rightarrow> Inl e
                  | Inr v \<Rightarrow> Inr (QueryVal (Comparator operator n v))))
          else
            (case AstQuery_index_name operand1 of
               Inl e \<Rightarrow> Inl e
             | Inr n \<Rightarrow>
                 (case AstQuery_value names operand2 of
                    Inl e \<Rightarrow> Inl e
                  | Inr v \<Rightarrow> Inr (QueryVal (Comparator operator n v))))
      | _ \<Rightarrow> Inl (ValueError ''too many values to unpack''))"

text \<open>\<^verbatim>\<open>process_BinOp(self, node, children)\<close> with \<^verbatim>\<open>left, operator, right = children\<close>.\<close>

definition process_BinOp :: "pyval \<Rightarrow> operator \<Rightarrow> pyval \<Rightarrow> error + pyval" where
  "process_BinOp left operator right =
     (case left of
        QueryVal l \<Rightarrow>
          (case right of
             QueryVal r \<Rightarrow> Inr (QueryVal (Operator operator l r))
           | _ \<Rightarrow>
               Inl (ValueError (''Bad expression: right operand for '' @ operator_name operator
                                @ '' must be a result set.'')))
      | _ \<Rightarrow>
          Inl (ValueError (''Bad expression: left operand for '' @ operator_name operator
                           @ '' must be a result set.'')))"

text \<open>
  \<^verbatim>\<open>process_BoolOp(self, node, children)\<close>: the first child is the operator class; every
  other child has to be a query; the first two are popped and joined, then each further one
  is joined to the right of the result.
\<close>

fun queries_of :: "pyval list \<Rightarrow> query list option" where
  "queries_of [] = Some []"
| "queries_of (QueryVal q # xs) = (case queries_of xs of None \<Rightarrow> None | Some qs \<Rightarrow> Some (q # qs))"
| "queries_of (x # xs) = None"

definition process_BoolOp :: "operator \<Rightarrow> pyval list \<Rightarrow> error + pyval" where
  "process_BoolOp operator children =
     (case queries_of children of
        None \<Rightarrow>
          Inl (ValueError (''Bad expression: All operands for '' @ operator_name operator
                           @ '' must be result sets.''))
      | Some (a # b # others) \<Rightarrow>
          Inr (QueryVal (foldl (Operator operator) (Operator operator a b) others))
      | Some _ \<Rightarrow> Inl (IndexError ''pop from empty list''))"

text \<open>
  \<^verbatim>\<open>visit(node)\<close> inside \<^verbatim>\<open>walk\<close>: the children are visited first, from left to right, and
  the first exception ends the walk; then the node is processed by the method for its class.
  \<^verbatim>\<open>process_Name\<close> returns the node, \<^verbatim>\<open>process_Str\<close> and \<^verbatim>\<open>process_Num\<close> the literal.
\<close>

fun AstQuery_visit :: "names \<Rightarrow> expr \<Rightarrow> error + pyval"
and AstQuery_visit_list :: "names \<Rightarrow> expr list \<Rightarrow> error + pyval list"
and AstQuery_visit_comparators :: "names \<Rightarrow> (cmpop \<times> expr) list \<Rightarrow> error + pyval list"
where
  "AstQuery_visit names (ast_BoolOp op vals) =
     (case AstQuery_visit_list names vals of
        Inl e \<Rightarrow> Inl e
      | Inr children \<Rightarrow> process_BoolOp (visit_boolop op) children)"
| "AstQuery_visit names (ast_BinOp l op r) =
     (case AstQuery_visit names l of
        Inl e \<Rightarrow> Inl e
      | Inr left \<Rightarrow>
          (case visit_binop op of
             Inl e \<Rightarrow> Inl e
           | Inr operator \<Rightarrow>
               (case AstQuery_visit names r of
                  Inl e \<Rightarrow> Inl e
                | Inr right \<Rightarrow> process_BinOp left operator right)))"
| "AstQuery_visit names (ast_Compare l rest) =
     (case AstQuery_visit names l of
        Inl e \<Rightarrow> Inl e
      | Inr operand1 \<Rightarrow>
          (case visit_cmpops (map fst rest) of
             Inl e \<Rightarrow> Inl e
           | Inr ops \<Rightarrow>
               (case AstQuery_visit_comparators names rest of
                  Inl e \<Rightarrow> Inl e
                | Inr operands \<Rightarrow> process_Compare names operand1 (zip ops operands))))"
| "AstQuery_visit names (ast_Name n c) =
     (case visit_expr_context c of
        Inl e \<Rightarrow> Inl e
      | Inr x \<Rightarrow> Inr (AstName n))"
| "AstQuery_visit names (ast_Str s) = Inr (Str s)"
| "AstQuery_visit names (ast_Num n) = Inr (Num n)"
| "AstQuery_visit names (ast_List elts c) =
     (case AstQuery_visit_list names elts of
        Inl e \<Rightarrow> Inl e
      | Inr xs \<Rightarrow>
          (case visit_expr_context c of
             Inl e \<Rightarrow> Inl e
           | Inr x \<Rightarrow> process_List names (xs @ [x])))"
| "AstQuery_visit names (ast_Tuple elts c) =
     (case AstQuery_visit_list names elts of
        Inl e \<Rightarrow> Inl e
      | Inr xs \<Rightarrow>
          (case visit_expr_context c of
             Inl e \<Rightarrow> Inl e
           | Inr x \<Rightarrow> process_Tuple names (xs @ [x])))"
| "AstQuery_visit names (ast_Other cls children) =
     (case AstQuery_visit_list names children of
        Inl e \<Rightarrow> Inl e
      | Inr xs \<Rightarrow> Inl (unhandled cls))"
| "AstQuery_visit_list names [] = Inr []"
| "AstQuery_visit_list names (x # xs) =
     (case AstQuery_visit names x of
        Inl e \<Rightarrow> Inl e
      | Inr y \<Rightarrow>
          (case AstQuery_visit_list names xs of
             Inl e \<Rightarrow> Inl e
           | Inr ys \<Rightarrow> Inr (y # ys)))"
| "AstQuery_visit_comparators names [] = Inr []"
| "AstQuery_visit_comparators names ((op, x) # rest) =
     (case AstQuery_visit names x of
        Inl e \<Rightarrow> Inl e
      | Inr y \<Rightarrow>
          (case AstQuery_visit_comparators names rest of
             Inl e \<Rightarrow> Inl e
           | Inr ys \<Rightarrow> Inr (y # ys)))"

definition AstQuery_walk :: "names \<Rightarrow> expr \<Rightarrow> error + pyval" where
  "AstQuery_walk names tree = AstQuery_visit names tree"

text \<open>
  \<^verbatim>\<open>_AstQuery.__init__(self, expr, names)\<close>, from the outcome of \<^verbatim>\<open>ast.parse(expr)\<close>: the
  exception raised by the parser, or the body of the module, a list of statements. The
  result is the attribute \<^verbatim>\<open>query\<close>.
\<close>

definition AstQuery_init :: "error + stmt list \<Rightarrow> names \<Rightarrow> error + pyval" where
  "AstQuery_init parsed names =
     (case parsed of
        Inl e \<Rightarrow> Inl e
      | Inr statements \<Rightarrow>
          if length statements > 1 then Inl (ValueError ''Can only process single expression.'')
          else
            (case statements of
               [] \<Rightarrow> Inl (IndexError ''list index out of range'')
             | expr_tree # _ \<Rightarrow>
                 (case expr_tree of
                    ast_Expr v \<Rightarrow> AstQuery_walk names v
                  | _ \<Rightarrow> Inl (ValueError ''Not an expression.''))))"

text \<open>
  \<^verbatim>\<open>_group_any_and_all\<close> on what the compiler returns: an object that is not a query is
  neither an \<^verbatim>\<open>Operator\<close> nor an \<^verbatim>\<open>Eq\<close>, and is returned as it is.
\<close>

definition group_any_and_all_obj :: "pyval \<Rightarrow> pyval" where
  "group_any_and_all_obj tree =
     (case tree of
        QueryVal q \<Rightarrow> QueryVal (group_any_and_all q)
      | _ \<Rightarrow> tree)"

text \<open>\<^verbatim>\<open>parse_query(expr, names=None)\<close>, from the outcome of \<^verbatim>\<open>ast.parse(expr)\<close>.\<close>

definition parse_query :: "error + stmt list \<Rightarrow> names option \<Rightarrow> error + pyval" where
  "parse_query parsed names =
     (let names' = (case names of None \<Rightarrow> Map.empty | Some n \<Rightarrow> n) in
      case AstQuery_init parsed names' of
        Inl e \<Rightarrow> Inl e
      | Inr q \<Rightarrow> Inr (group_any_and_all_obj q))"

text \<open>Whether an expression is a bare name, a node of class \<^verbatim>\<open>ast.Name\<close>.\<close>

fun is_Name :: "expr \<Rightarrow> bool" where
  "is_Name (ast_Name n c) = True"
| "is_Name _ = False"

subsection \<open>A small catalog for examples\<close>

text \<open>
  One index \<open>i\<close> that answers two equality tests; a family whose merges keep the weights
  of the left operand.
\<close>

definition example_index :: "int index" where
  "example_index c v =
     (if c = Eq \<and> v = Num 1 then [(1, 1), (2, 1)]
      else if c = Eq \<and> v = Num 2 then [(2, 1), (3, 1)]
      else [])"

definition example_catalog :: "int catalog" where
  "example_catalog n = (if n = ''i'' then Some example_index else None)"

definition example_family :: "int family" where
  "example_family =
     \<lparr>weightedUnion = (\<lambda>l r. (1, l @ filter (\<lambda>(d, w). d \<notin> fst ` set l) r)),
      weightedIntersection = (\<lambda>l r. (2, filter (\<lambda>(d, w). d \<in> fst ` set r) l))\<rparr>"

definition example_SearchQuery :: "int resultset option \<Rightarrow> int SearchQuery" where
  "example_SearchQuery res =
     \<lparr>sq_catalog = example_catalog, sq_family = example_family, sq_results = res\<rparr>"

section \<open>Properties of the optimizer\<close>

lemma group_Comparator: "group_node (Comparator c n v) i vs = Comparator c n v"
  by (simp add: group_node_def)

lemma group_short: "length vs \<le> 1 \<Longrightarrow> group_node t i vs = t"
  by (simp add: group_node_def)

lemma group_cases:
  "group_node t i vs = t \<or> (\<exists>c n v. group_node t i vs = Comparator c n v)"
  by (auto simp: group_node_def split: query.splits operator.splits option.splits)

lemma visit_None_values: "fst (fst (visit t)) = None \<Longrightarrow> snd (fst (visit t)) = []"
  by (induction t rule: visit.induct) (auto split: prod.splits if_splits)

lemma leaf_values_nonempty: "leaf_values t \<noteq> []"
  by (induction t rule: leaf_values.induct) auto

lemma visit_eq_run: "eq_run k i t \<Longrightarrow> visit t = ((Some i, leaf_values t), t)"
  by (induction t rule: visit.induct) auto

lemma visit_fixed: "visit t = (r, t') \<Longrightarrow> visit t' = (r, t')"
proof (induction t arbitrary: r t' rule: visit.induct)
  case (1 k left right)
  obtain li lv l' where L: "visit left = ((li, lv), l')"
    by (metis prod.exhaust)
  obtain ri rv r' where R: "visit right = ((ri, rv), r')"
    by (metis prod.exhaust)
  have L': "visit l' = ((li, lv), l')"
    using "1.IH"(1) L by blast
  have R': "visit r' = ((ri, rv), r')"
    using "1.IH"(2) [OF L [symmetric] refl R] .
  show ?case
  proof (cases "li = ri")
    case True
    with L R L' R' "1.prems" show ?thesis by auto
  next
    case False
    from L have lv_nil: "li = None \<Longrightarrow> lv = []"
      using visit_None_values [of left] by simp
    from R have rv_nil: "ri = None \<Longrightarrow> rv = []"
      using visit_None_values [of right] by simp
    define gl where "gl = group_node l' li lv"
    define gr where "gr = group_node r' ri rv"
    have res: "r = (None, [])" "t' = Operator k gl gr"
      using False L R "1.prems" by (auto simp: gl_def gr_def)
    have GL: "\<exists>li2 lv2. visit gl = ((li2, lv2), gl) \<and> group_node gl li2 lv2 = gl
                \<and> (li2 = li \<or> li2 = None) \<and> (li2 = None \<longrightarrow> lv2 = [])"
    proof (cases "gl = l'")
      case True
      with L' lv_nil show ?thesis by (auto simp: gl_def)
    next
      case False
      then obtain c n v where "gl = Comparator c n v"
        using group_cases [of l' li lv] by (auto simp: gl_def)
      moreover have "c \<noteq> Eq"
        using calculation False
        by (auto simp: gl_def group_node_def split: if_splits query.splits operator.splits option.splits)
      ultimately show ?thesis by (simp add: group_Comparator)
    qed
    have GR: "\<exists>ri2 rv2. visit gr = ((ri2, rv2), gr) \<and> group_node gr ri2 rv2 = gr
                \<and> (ri2 = ri \<or> ri2 = None) \<and> (ri2 = None \<longrightarrow> rv2 = [])"
    proof (cases "gr = r'")
      case True
      with R' rv_nil show ?thesis by (auto simp: gr_def)
    next
      case False
      then obtain c n v where "gr = Comparator c n v"
        using group_cases [of r' ri rv] by (auto simp: gr_def)
      moreover have "c \<noteq> Eq"
        using calculation False
        by (auto simp: gr_def group_node_def split: if_splits query.splits operator.splits option.splits)
      ultimately show ?thesis by (simp add: group_Comparator)
    qed
    from GL obtain li2 lv2 where gl2: "visit gl = ((li2, lv2), gl)" "group_node gl li2 lv2 = gl"
      "li2 = li \<or> li2 = None" "li2 = None \<longrightarrow> lv2 = []" by blast
    from GR obtain ri2 rv2 where gr2: "visit gr = ((ri2, rv2), gr)" "group_node gr ri2 rv2 = gr"
      "ri2 = ri \<or> ri2 = None" "ri2 = None \<longrightarrow> rv2 = []" by blast
    have "visit (Operator k gl gr) = ((None, []), Operator k gl gr)"
    proof (cases "li2 = ri2")
      case True
      with gl2(3) gr2(3) False have "li2 = None" "ri2 = None" by auto
      with gl2 gr2 show ?thesis by simp
    next
      case False
      with gl2 gr2 show ?thesis by simp
    qed
    with res show ?thesis by simp
  qed
next
  case (2 c index_name v)
  then show ?case by (auto split: if_splits)
qed

text \<open>
  C2. A tree of \<^verbatim>\<open>Eq\<close> leaves on one index \<open>i\<close>, joined by \<^verbatim>\<open>Intersection\<close> nodes only
  (so that its root is an operator), is rewritten to the single comparator
  \<^verbatim>\<open>All(i, [v1, ..., vn])\<close>, the values being those of the leaves from left to right; joined
  by \<^verbatim>\<open>Union\<close> nodes only it is rewritten to \<^verbatim>\<open>Any(i, [v1, ..., vn])\<close>.
\<close>

theorem group_any_and_all_eq_run:
  "(eq_run Intersection i t \<and> is_Operator t \<longrightarrow>
      group_any_and_all t = Comparator All_cmp i (PyList (leaf_values t))) \<and>
   (eq_run Union_op i t \<and> is_Operator t \<longrightarrow>
      group_any_and_all t = Comparator Any i (PyList (leaf_values t)))"
proof -
  have len: "is_Operator t \<Longrightarrow> length (leaf_values t) > 1"
  proof (cases t)
    case (Comparator c n v)
    assume "is_Operator t"
    with Comparator show ?thesis by simp
  next
    case (Operator k l r)
    have "0 < length (leaf_values l)" "0 < length (leaf_values r)"
      using leaf_values_nonempty [of l] leaf_values_nonempty [of r] by simp_all
    then have "1 < length (leaf_values l) + length (leaf_values r)" by arith
    with Operator show ?thesis by simp
  qed
  show ?thesis
  proof (cases t)
    case (Comparator c n v)
    then show ?thesis by simp
  next
    case (Operator k l r)
    with len have "length (leaf_values t) > 1" by simp
    with Operator show ?thesis
      using visit_eq_run [of Intersection i t] visit_eq_run [of Union_op i t]
      by (auto simp: group_any_and_all_def group_node_def)
  qed
qed

theorem group_any_and_all_eq_run_witness:
  "group_any_and_all
     (Operator Intersection
        (Operator Intersection (Comparator Eq ''i'' (Num 1)) (Comparator Eq ''i'' (Str ''b'')))
        (Comparator Eq ''i'' (Num 3)))
   = Comparator All_cmp ''i'' (PyList [Num 1, Str ''b'', Num 3]) \<and>
   group_any_and_all
     (Operator Union_op
        (Comparator Eq ''i'' (Num 1))
        (Operator Union_op (Comparator Eq ''i'' (Num 2)) (Comparator Eq ''i'' (Num 3))))
   = Comparator Any ''i'' (PyList [Num 1, Num 2, Num 3])"
  using group_any_and_all_eq_run [of "''i''"
      "Operator Intersection
        (Operator Intersection (Comparator Eq ''i'' (Num 1)) (Comparator Eq ''i'' (Str ''b'')))
        (Comparator Eq ''i'' (Num 3))"]
    group_any_and_all_eq_run [of "''i''"
      "Operator Union_op
        (Comparator Eq ''i'' (Num 1))
        (Operator Union_op (Comparator Eq ''i'' (Num 2)) (Comparator Eq ''i'' (Num 3)))"]
  by simp

text \<open>
  C9. The optimizer is idempotent: rewriting a rewritten tree changes nothing.
\<close>

theorem group_any_and_all_idempotent:
  "group_any_and_all (group_any_and_all t) = group_any_and_all t"
proof -
  obtain r t' where V: "visit t = (r, t')"
    by (metis prod.exhaust)
  obtain i vs where r: "r = (i, vs)"
    by (metis prod.exhaust)
  have V': "visit t' = ((i, vs), t')"
    using visit_fixed V r by blast
  have first: "group_any_and_all t = group_node t' i vs"
    using V r by (simp add: group_any_and_all_def)
  show ?thesis
  proof (cases "group_node t' i vs = t'")
    case True
    with first V' show ?thesis by (simp add: group_any_and_all_def)
  next
    case False
    then obtain c n v where "group_node t' i vs = Comparator c n v"
      using group_cases [of t' i vs] by auto
    with first show ?thesis
      by (simp add: group_any_and_all_def group_Comparator)
  qed
qed

text \<open>
  C1. The tree \<^verbatim>\<open>Intersection(Union(Eq("i",1), Eq("i",2)), Eq("i",3))\<close>, which the compiler
  builds from \<^verbatim>\<open>(i == 1 or i == 2) and i == 3\<close>, joins its leaves by operators of two
  kinds; the optimizer nevertheless rewrites it to \<^verbatim>\<open>All("i", [1, 2, 3])\<close>: \<^verbatim>\<open>visit\<close>
  compares the index names of the two children only, never the classes of the operators.
\<close>

theorem group_any_and_all_mixed_kinds:
  "eq_run Intersection ''i''
     (Operator Intersection
        (Operator Union_op (Comparator Eq ''i'' (Num 1)) (Comparator Eq ''i'' (Num 2)))
        (Comparator Eq ''i'' (Num 3))) = False \<and>
   eq_run Union_op ''i''
     (Operator Intersection
        (Operator Union_op (Comparator Eq ''i'' (Num 1)) (Comparator Eq ''i'' (Num 2)))
        (Comparator Eq ''i'' (Num 3))) = False \<and>
   group_any_and_all
     (Operator Intersection
        (Operator Union_op (Comparator Eq ''i'' (Num 1)) (Comparator Eq ''i'' (Num 2)))
        (Comparator Eq ''i'' (Num 3)))
     = Comparator All_cmp ''i'' (PyList [Num 1, Num 2, Num 3]) \<and>
   parse_query
     (Inr [ast_Expr
        (ast_BoolOp ast_And
           [ast_BoolOp ast_Or
              [ast_Compare (ast_Name ''i'' ast_Load) [(ast_Eq, ast_Num 1)],
               ast_Compare (ast_Name ''i'' ast_Load) [(ast_Eq, ast_Num 2)]],
            ast_Compare (ast_Name ''i'' ast_Load) [(ast_Eq, ast_Num 3)]])]) None
     = Inr (QueryVal (Comparator All_cmp ''i'' (PyList [Num 1, Num 2, Num 3])))"
  by (simp add: group_any_and_all_def group_node_def parse_query_def AstQuery_init_def
        AstQuery_walk_def process_BoolOp_def process_Compare_def AstQuery_index_name_def
        AstQuery_value_def group_any_and_all_obj_def)

section \<open>Properties of the evaluation\<close>

text \<open>Every evaluation of a query asks the catalog for an index at least once.\<close>

lemma query_apply_events: "snd (query_apply fam catalog q) \<noteq> []"
  by (induction fam catalog q rule: query_apply.induct)
     (auto split: prod.splits sum.splits option.splits)

text \<open>
  C3. Evaluating \<^verbatim>\<open>Intersection(l, r)\<close> evaluates \<open>l\<close> first. If the left result is empty
  the result is the empty set and the events are those of \<open>l\<close> alone: \<open>r\<close>, whose
  evaluation would leave at least one event, is not evaluated. Otherwise \<open>r\<close> is evaluated
  after \<open>l\<close>; if the right result is empty the result is the empty set, otherwise it is
  the weighted intersection of the two results. An exception of \<open>l\<close> is passed on.
\<close>

theorem Intersection_apply:
  "snd (query_apply fam catalog r) \<noteq> [] \<and>
   (query_apply fam catalog l = (Inl e, evl) \<longrightarrow>
      query_apply fam catalog (Operator Intersection l r) = (Inl e, evl)) \<and>
   (query_apply fam catalog l = (Inr left, evl) \<and> left = [] \<longrightarrow>
      query_apply fam catalog (Operator Intersection l r) = (Inr [], evl)) \<and>
   (query_apply fam catalog l = (Inr left, evl) \<and> left \<noteq> [] \<and>
    query_apply fam catalog r = (Inr right, evr) \<and> right = [] \<longrightarrow>
      query_apply fam catalog (Operator Intersection l r) = (Inr [], evl @ evr)) \<and>
   (query_apply fam catalog l = (Inr left, evl) \<and> left \<noteq> [] \<and>
    query_apply fam catalog r = (Inr right, evr) \<and> right \<noteq> [] \<longrightarrow>
      query_apply fam catalog (Operator Intersection l r) =
        (Inr (snd (weightedIntersection fam left right)), evl @ evr))"
  using query_apply_events [of fam catalog r] by (simp add: IF_Set_def)

theorem Intersection_apply_witness:
  "query_apply example_family example_catalog
     (Operator Intersection (Comparator Eq ''i'' (Num 7)) (Comparator Eq ''i'' (Num 1)))
     = (Inr [], [GetIndex ''i'', IndexApply Eq ''i'' (Num 7)]) \<and>
   query_apply example_family example_catalog
     (Operator Intersection (Comparator Eq ''i'' (Num 1)) (Comparator Eq ''i'' (Num 7)))
     = (Inr [], [GetIndex ''i'', IndexApply Eq ''i'' (Num 1),
                 GetIndex ''i'', IndexApply Eq ''i'' (Num 7)]) \<and>
   query_apply example_family example_catalog
     (Operator Intersection (Comparator Eq ''i'' (Num 1)) (Comparator Eq ''i'' (Num 2)))
     = (Inr [(2, 1)], [GetIndex ''i'', IndexApply Eq ''i'' (Num 1),
                       GetIndex ''i'', IndexApply Eq ''i'' (Num 2)]) \<and>
   query_apply example_family example_catalog
     (Operator Intersection (Comparator Eq ''j'' (Num 1)) (Comparator Eq ''i'' (Num 2)))
     = (Inl (KeyError ''j''), [GetIndex ''j''])"
  using
    Intersection_apply [where fam = example_family and catalog = example_catalog
      and l = "Comparator Eq ''i'' (Num 7)" and r = "Comparator Eq ''i'' (Num 1)" and e = "KeyError ''j''"
      and left = "[]" and evl = "[GetIndex ''i'', IndexApply Eq ''i'' (Num 7)]"
      and right = "[]" and evr = "[]"]
    Intersection_apply [where fam = example_family and catalog = example_catalog
      and l = "Comparator Eq ''i'' (Num 1)" and r = "Comparator Eq ''i'' (Num 7)" and e = "KeyError ''j''"
      and left = "[(1, 1), (2, 1)]" and evl = "[GetIndex ''i'', IndexApply Eq ''i'' (Num 1)]"
      and right = "[]" and evr = "[GetIndex ''i'', IndexApply Eq ''i'' (Num 7)]"]
    Intersection_apply [where fam = example_family and catalog = example_catalog
      and l = "Comparator Eq ''i'' (Num 1)" and r = "Comparator Eq ''i'' (Num 2)" and e = "KeyError ''j''"
      and left = "[(1, 1), (2, 1)]" and evl = "[GetIndex ''i'', IndexApply Eq ''i'' (Num 1)]"
      and right = "[(2, 1), (3, 1)]" and evr = "[GetIndex ''i'', IndexApply Eq ''i'' (Num 2)]"]
    Intersection_apply [where fam = example_family and catalog = example_catalog
      and l = "Comparator Eq ''j'' (Num 1)" and r = "Comparator Eq ''i'' (Num 2)" and e = "KeyError ''j''"
      and left = "[]" and evl = "[GetIndex ''j'']"
      and right = "[]" and evr = "[]"]
  by (simp add: example_catalog_def example_index_def example_family_def)

lemma IF_difference_docids:
  "fst ` set (IF_difference left right) = fst ` set left - fst ` set right"
  by (auto simp: IF_difference_def image_iff)

lemma IF_difference_weights: "set (IF_difference left right) \<subseteq> set left"
  by (auto simp: IF_difference_def)

text \<open>
  C4. Evaluating \<^verbatim>\<open>Difference(l, r)\<close> evaluates \<open>l\<close> first. If the left result is empty the
  result is empty and \<open>r\<close> is not evaluated (the events are those of \<open>l\<close> alone). Otherwise
  \<open>r\<close> is evaluated; if the right result is empty the result is the left result, otherwise
  it is the left result without the document ids of the right result, each remaining
  document with its weight of the left result.
\<close>

theorem Difference_apply:
  "snd (query_apply fam catalog r) \<noteq> [] \<and>
   (query_apply fam catalog l = (Inl e, evl) \<longrightarrow>
      query_apply fam catalog (Operator Difference l r) = (Inl e, evl)) \<and>
   (query_apply fam catalog l = (Inr left, evl) \<and> left = [] \<longrightarrow>
      query_apply fam catalog (Operator Difference l r) = (Inr [], evl)) \<and>
   (query_apply fam catalog l = (Inr left, evl) \<and> left \<noteq> [] \<and>
    query_apply fam catalog r = (Inr right, evr) \<and> right = [] \<longrightarrow>
      query_apply fam catalog (Operator Difference l r) = (Inr left, evl @ evr)) \<and>
   (query_apply fam catalog l = (Inr left, evl) \<and> left \<noteq> [] \<and>
    query_apply fam catalog r = (Inr right, evr) \<and> right \<noteq> [] \<longrightarrow>
      (\<exists>res. query_apply fam catalog (Operator Difference l r) = (Inr res, evl @ evr) \<and>
         res = filter (\<lambda>(docid, w). docid \<notin> fst ` set right) left \<and>
         fst ` set res = fst ` set left - fst ` set right \<and>
         set res \<subseteq> set left))"
  using query_apply_events [of fam catalog r]
    IF_difference_docids [of left right] IF_difference_weights [of left right]
  by (simp add: IF_Set_def) (simp add: IF_difference_def)

theorem Difference_apply_witness:
  "query_apply example_family example_catalog
     (Operator Difference (Comparator Eq ''i'' (Num 7)) (Comparator Eq ''i'' (Num 1)))
     = (Inr [], [GetIndex ''i'', IndexApply Eq ''i'' (Num 7)]) \<and>
   query_apply example_family example_catalog
     (Operator Difference (Comparator Eq ''i'' (Num 1)) (Comparator Eq ''i'' (Num 7)))
     = (Inr [(1, 1), (2, 1)], [GetIndex ''i'', IndexApply Eq ''i'' (Num 1),
                 GetIndex ''i'', IndexApply Eq ''i'' (Num 7)]) \<and>
   query_apply example_family example_catalog
     (Operator Difference (Comparator Eq ''i'' (Num 1)) (Comparator Eq ''i'' (Num 2)))
     = (Inr [(1, 1)], [GetIndex ''i'', IndexApply Eq ''i'' (Num 1),
                       GetIndex ''i'', IndexApply Eq ''i'' (Num 2)]) \<and>
   query_apply example_family example_catalog
     (Operator Difference (Comparator Eq ''j'' (Num 1)) (Comparator Eq ''i'' (Num 2)))
     = (Inl (KeyError ''j''), [GetIndex ''j''])"
  using
    Difference_apply [where fam = example_family and catalog = example_catalog
      and l = "Comparator Eq ''i'' (Num 7)" and r = "Comparator Eq ''i'' (Num 1)" and e = "KeyError ''j''"
      and left = "[]" and evl = "[GetIndex ''i'', IndexApply Eq ''i'' (Num 7)]"
      and right = "[]" and evr = "[]"]
    Difference_apply [where fam = example_family and catalog = example_catalog
      and l = "Comparator Eq ''i'' (Num 1)" and r = "Comparator Eq ''i'' (Num 7)" and e = "KeyError ''j''"
      and left = "[(1, 1), (2, 1)]" and evl = "[GetIndex ''i'', IndexApply Eq ''i'' (Num 1)]"
      and right = "[]" and evr = "[GetIndex ''i'', IndexApply Eq ''i'' (Num 7)]"]
    Difference_apply [where fam = example_family and catalog = example_catalog
      and l = "Comparator Eq ''i'' (Num 1)" and r = "Comparator Eq ''i'' (Num 2)" and e = "KeyError ''j''"
      and left = "[(1, 1), (2, 1)]" and evl = "[GetIndex ''i'', IndexApply Eq ''i'' (Num 1)]"
      and right = "[(2, 1), (3, 1)]" and evr = "[GetIndex ''i'', IndexApply Eq ''i'' (Num 2)]"]
    Difference_apply [where fam = example_family and catalog = example_catalog
      and l = "Comparator Eq ''j'' (Num 1)" and r = "Comparator Eq ''i'' (Num 2)" and e = "KeyError ''j''"
      and left = "[]" and evl = "[GetIndex ''j'']"
      and right = "[]" and evr = "[]"]
  by (simp add: example_catalog_def example_index_def example_family_def IF_difference_def)

section \<open>Properties of the accumulator\<close>

text \<open>
  C5. On an accumulator whose results are empty, \<^verbatim>\<open>And(q)\<close> and \<^verbatim>\<open>Not(q)\<close> return the
  accumulator unchanged and leave no event: \<open>q\<close>, whose evaluation would leave at least
  one, is not evaluated. On an accumulator whose results are not empty, \<^verbatim>\<open>And(q)\<close>
  evaluates \<open>q\<close>; a result of \<open>q\<close> that is not empty is intersected with the results, an
  empty one sets the results to the empty set.
\<close>

theorem SearchQuery_And_Not:
  "snd (query_apply fam (sq_catalog self) q) \<noteq> [] \<and>
   (length (results self) = 0 \<longrightarrow>
      SearchQuery_And fam self q = (Inr self, []) \<and>
      SearchQuery_Not fam self q = (Inr self, [])) \<and>
   (length (results self) \<noteq> 0 \<and>
    query_apply fam (sq_catalog self) q = (Inr res, ev) \<and> res \<noteq> [] \<longrightarrow>
      SearchQuery_And fam self q =
        (Inr (self\<lparr>sq_results :=
                Some (snd (weightedIntersection (sq_family self) (results self) res))\<rparr>), ev)) \<and>
   (length (results self) \<noteq> 0 \<and>
    query_apply fam (sq_catalog self) q = (Inr res, ev) \<and> res = [] \<longrightarrow>
      SearchQuery_And fam self q = (Inr (self\<lparr>sq_results := Some []\<rparr>), ev) \<and>
      results (self\<lparr>sq_results := Some []\<rparr>) = [])"
  using query_apply_events [of fam "sq_catalog self" q]
  by (simp add: SearchQuery_And_def SearchQuery_Not_def IF_Set_def results_def)

theorem SearchQuery_And_Not_witness:
  "SearchQuery_And example_family (example_SearchQuery None) (Comparator Eq ''i'' (Num 1))
     = (Inr (example_SearchQuery None), []) \<and>
   SearchQuery_Not example_family (example_SearchQuery (Some [])) (Comparator Eq ''i'' (Num 1))
     = (Inr (example_SearchQuery (Some [])), []) \<and>
   SearchQuery_And example_family (example_SearchQuery (Some [(1, 1), (2, 1)]))
       (Comparator Eq ''i'' (Num 2))
     = (Inr (example_SearchQuery (Some [(2, 1)])),
        [GetIndex ''i'', IndexApply Eq ''i'' (Num 2)]) \<and>
   SearchQuery_And example_family (example_SearchQuery (Some [(1, 1), (2, 1)]))
       (Comparator Eq ''i'' (Num 7))
     = (Inr (example_SearchQuery (Some [])),
        [GetIndex ''i'', IndexApply Eq ''i'' (Num 7)])"
  using
    SearchQuery_And_Not [where fam = example_family
      and self = "example_SearchQuery (None)" and q = "Comparator Eq ''i'' (Num 1)"
      and res = "[]" and ev = "[]"]
    SearchQuery_And_Not [where fam = example_family
      and self = "example_SearchQuery (Some [])" and q = "Comparator Eq ''i'' (Num 1)"
      and res = "[]" and ev = "[]"]
    SearchQuery_And_Not [where fam = example_family
      and self = "example_SearchQuery (Some [(1, 1), (2, 1)])" and q = "Comparator Eq ''i'' (Num 2)"
      and res = "[(2, 1), (3, 1)]" and ev = "[GetIndex ''i'', IndexApply Eq ''i'' (Num 2)]"]
    SearchQuery_And_Not [where fam = example_family
      and self = "example_SearchQuery (Some [(1, 1), (2, 1)])" and q = "Comparator Eq ''i'' (Num 7)"
      and res = "[]" and ev = "[GetIndex ''i'', IndexApply Eq ''i'' (Num 7)]"]
  by (simp add: example_SearchQuery_def example_catalog_def example_index_def
        example_family_def results_def IF_Set_def)

section \<open>Properties of the combinators\<close>

text \<open>
  C8. On a query \<open>self\<close>, \<^verbatim>\<open>&\<close>, \<^verbatim>\<open>|\<close> and \<^verbatim>\<open>-\<close> build \<^verbatim>\<open>Intersection\<close>, \<^verbatim>\<open>Union\<close> and
  \<^verbatim>\<open>Difference\<close> with \<open>self\<close> as the left and the operand as the right child when the
  operand is a query, and raise a \<^verbatim>\<open>TypeError\<close> that names the operation and the types of
  \<open>self\<close> and of the operand when it is not.
\<close>

theorem Query_combinators:
  "Query_and self (QueryVal r) = Inr (Operator Intersection self r) \<and>
   Query_or self (QueryVal r) = Inr (Operator Union_op self r) \<and>
   Query_sub self (QueryVal r) = Inr (Operator Difference self r) \<and>
   (\<not> is_Query x \<longrightarrow>
      Query_and self x = Inl (TypeError ''set intersection'' (type_of (QueryVal self)) (type_of x)) \<and>
      Query_or self x = Inl (TypeError ''set union'' (type_of (QueryVal self)) (type_of x)) \<and>
      Query_sub self x = Inl (TypeError ''set difference'' (type_of (QueryVal self)) (type_of x)))"
  by (cases x) (simp_all add: Query_and_def Query_or_def Query_sub_def Query_check_type_def)

theorem Query_combinators_witness:
  "\<not> is_Query (Num 1) \<and>
   Query_and (Comparator Eq ''i'' (Num 1)) (Num 1)
     = Inl (TypeError ''set intersection'' (T_Comparator Eq) T_int) \<and>
   Query_or (Comparator Eq ''i'' (Num 1)) (Num 1)
     = Inl (TypeError ''set union'' (T_Comparator Eq) T_int) \<and>
   Query_sub (Comparator Eq ''i'' (Num 1)) (Num 1)
     = Inl (TypeError ''set difference'' (T_Comparator Eq) T_int)"
  using Query_combinators [where self = "Comparator Eq ''i'' (Num 1)" and x = "Num 1"]
  by simp

section \<open>Properties of the compiler\<close>

lemma parse_query_Expr:
  "parse_query (Inr [ast_Expr v]) names =
     (case AstQuery_visit (case names of None \<Rightarrow> Map.empty | Some n \<Rightarrow> n) v of
        Inl e \<Rightarrow> Inl e
      | Inr q \<Rightarrow> Inr (group_any_and_all_obj q))"
  by (simp add: parse_query_def AstQuery_init_def AstQuery_walk_def)

lemma group_any_and_all_Comparator:
  "group_any_and_all (Comparator c n v) = Comparator c n v"
  by (simp add: group_any_and_all_def group_node_def)

lemma visit_Compare_In:
  "AstQuery_visit names e = Inr x \<Longrightarrow> AstQuery_value names x = Inr v \<Longrightarrow>
   AstQuery_visit names (ast_Compare e [(ast_In, ast_Name n ast_Load)])
     = Inr (QueryVal (Comparator Contains n v))"
  by (simp add: process_Compare_def AstQuery_index_name_def)

lemma visit_Compare_ordinary:
  "visit_cmpop op = Inr c \<Longrightarrow> c \<noteq> Contains \<Longrightarrow>
   AstQuery_visit names e = Inr x \<Longrightarrow> AstQuery_value names x = Inr v \<Longrightarrow>
   AstQuery_visit names (ast_Compare (ast_Name n ast_Load) [(op, e)])
     = Inr (QueryVal (Comparator c n v))"
  by (simp add: process_Compare_def AstQuery_index_name_def)

text \<open>
  C6. With any table of names: the tree of \<^verbatim>\<open>idx == 'x'\<close> compiles to \<^verbatim>\<open>Eq("idx", "x")\<close>,
  the tree of \<^verbatim>\<open>idx1 == 1 and idx2 == 2\<close> to
  \<^verbatim>\<open>Intersection(Eq("idx1", 1), Eq("idx2", 2))\<close>, and the tree of \<^verbatim>\<open>'v' in idx\<close> to
  \<^verbatim>\<open>Contains("idx", "v")\<close>. In a membership test the index name is the right operand and
  the value the left one, in the other comparisons it is the other way round; the name in
  index position is taken as it is written, whatever the table holds for it.
\<close>

theorem parse_query_examples:
  "parse_query
     (Inr [ast_Expr (ast_Compare (ast_Name ''idx'' ast_Load) [(ast_Eq, ast_Str ''x'')])]) names
     = Inr (QueryVal (Comparator Eq ''idx'' (Str ''x''))) \<and>
   parse_query
     (Inr [ast_Expr
        (ast_BoolOp ast_And
           [ast_Compare (ast_Name ''idx1'' ast_Load) [(ast_Eq, ast_Num 1)],
            ast_Compare (ast_Name ''idx2'' ast_Load) [(ast_Eq, ast_Num 2)]])]) names
     = Inr (QueryVal (Operator Intersection (Comparator Eq ''idx1'' (Num 1))
                                            (Comparator Eq ''idx2'' (Num 2)))) \<and>
   parse_query
     (Inr [ast_Expr (ast_Compare (ast_Str ''v'') [(ast_In, ast_Name ''idx'' ast_Load)])]) names
     = Inr (QueryVal (Comparator Contains ''idx'' (Str ''v''))) \<and>
   (AstQuery_visit table e = Inr x \<and> AstQuery_value table x = Inr v \<longrightarrow>
      parse_query (Inr [ast_Expr (ast_Compare e [(ast_In, ast_Name n ast_Load)])]) (Some table)
        = Inr (QueryVal (Comparator Contains n v))) \<and>
   (visit_cmpop op = Inr c \<and> c \<noteq> Contains \<and>
    AstQuery_visit table e = Inr x \<and> AstQuery_value table x = Inr v \<longrightarrow>
      parse_query (Inr [ast_Expr (ast_Compare (ast_Name n ast_Load) [(op, e)])]) (Some table)
        = Inr (QueryVal (Comparator c n v)))"
proof -
  have 1: "parse_query
     (Inr [ast_Expr (ast_Compare (ast_Name ''idx'' ast_Load) [(ast_Eq, ast_Str ''x'')])]) names
     = Inr (QueryVal (Comparator Eq ''idx'' (Str ''x'')))"
    by (simp add: parse_query_Expr process_Compare_def AstQuery_index_name_def
          AstQuery_value_def group_any_and_all_obj_def group_any_and_all_Comparator)
  have 2: "parse_query
     (Inr [ast_Expr
        (ast_BoolOp ast_And
           [ast_Compare (ast_Name ''idx1'' ast_Load) [(ast_Eq, ast_Num 1)],
            ast_Compare (ast_Name ''idx2'' ast_Load) [(ast_Eq, ast_Num 2)]])]) names
     = Inr (QueryVal (Operator Intersection (Comparator Eq ''idx1'' (Num 1))
                                            (Comparator Eq ''idx2'' (Num 2))))"
    by (simp add: parse_query_Expr process_Compare_def process_BoolOp_def
          AstQuery_index_name_def AstQuery_value_def group_any_and_all_obj_def
          group_any_and_all_def group_node_def)
  have 3: "parse_query
     (Inr [ast_Expr (ast_Compare (ast_Str ''v'') [(ast_In, ast_Name ''idx'' ast_Load)])]) names
     = Inr (QueryVal (Comparator Contains ''idx'' (Str ''v'')))"
    by (simp add: parse_query_Expr process_Compare_def AstQuery_index_name_def
          AstQuery_value_def group_any_and_all_obj_def group_any_and_all_Comparator)
  have 4: "AstQuery_visit table e = Inr x \<and> AstQuery_value table x = Inr v \<longrightarrow>
      parse_query (Inr [ast_Expr (ast_Compare e [(ast_In, ast_Name n ast_Load)])]) (Some table)
        = Inr (QueryVal (Comparator Contains n v))"
    using visit_Compare_In [of table e x v n]
    by (simp add: parse_query_Expr group_any_and_all_obj_def group_any_and_all_Comparator)
  have 5: "visit_cmpop op = Inr c \<and> c \<noteq> Contains \<and>
    AstQuery_visit table e = Inr x \<and> AstQuery_value table x = Inr v \<longrightarrow>
      parse_query (Inr [ast_Expr (ast_Compare (ast_Name n ast_Load) [(op, e)])]) (Some table)
        = Inr (QueryVal (Comparator c n v))"
    using visit_Compare_ordinary [of op c table e x v n]
    by (simp add: parse_query_Expr group_any_and_all_obj_def group_any_and_all_Comparator)
  from 1 2 3 4 5 show ?thesis by blast
qed

theorem parse_query_examples_witness:
  "parse_query
     (Inr [ast_Expr (ast_Compare (ast_Name ''x'' ast_Load) [(ast_In, ast_Name ''idx'' ast_Load)])])
     (Some [''x'' \<mapsto> Str ''v'', ''idx'' \<mapsto> Num 5])
     = Inr (QueryVal (Comparator Contains ''idx'' (Str ''v''))) \<and>
   parse_query
     (Inr [ast_Expr (ast_Compare (ast_Name ''idx'' ast_Load) [(ast_LtE, ast_Name ''x'' ast_Load)])])
     (Some [''x'' \<mapsto> Str ''v'', ''idx'' \<mapsto> Num 5])
     = Inr (QueryVal (Comparator Le ''idx'' (Str ''v'')))"
  using
    parse_query_examples [where table = "[''x'' \<mapsto> Str ''v'', ''idx'' \<mapsto> Num 5]"
      and e = "ast_Name ''x'' ast_Load" and x = "AstName ''x''" and v = "Str ''v''"
      and n = "''idx''" and op = ast_LtE and c = Le]
  by (simp add: AstQuery_value_def)

text \<open>
  C7, as stated, fails: for the two statements of \<^verbatim>\<open>idx == 1; idx2 == 2\<close> the compiler
  raises a \<^verbatim>\<open>ValueError\<close>, not a \<^verbatim>\<open>SyntaxError\<close>.
\<close>

theorem parse_query_two_statements:
  "parse_query
     (Inr [ast_Expr (ast_Compare (ast_Name ''idx'' ast_Load) [(ast_Eq, ast_Num 1)]),
           ast_Expr (ast_Compare (ast_Name ''idx2'' ast_Load) [(ast_Eq, ast_Num 2)])]) None
     = Inl (ValueError ''Can only process single expression.'') \<and>
   parse_query
     (Inr [ast_Expr (ast_Compare (ast_Name ''idx'' ast_Load) [(ast_Eq, ast_Num 1)]),
           ast_Expr (ast_Compare (ast_Name ''idx2'' ast_Load) [(ast_Eq, ast_Num 2)])]) None
     \<noteq> Inl SyntaxError"
  by (simp add: parse_query_def AstQuery_init_def)

text \<open>
  C7, amended. For a text of more than one statement the compiler raises
  \<^verbatim>\<open>ValueError("Can only process single expression.")\<close>, for a single statement that is
  not an expression \<^verbatim>\<open>ValueError("Not an expression.")\<close>; in both cases no tree is
  returned.
\<close>

theorem parse_query_rejects_statements:
  "(length statements > 1 \<longrightarrow>
      parse_query (Inr statements) names
        = Inl (ValueError ''Can only process single expression.'')) \<and>
   parse_query (Inr [ast_OtherStmt cls]) names = Inl (ValueError ''Not an expression.'')"
  by (simp add: parse_query_def AstQuery_init_def)

theorem parse_query_rejects_statements_witness:
  "length [ast_Expr (ast_Num 1), ast_OtherStmt ''Pass''] > 1 \<and>
   parse_query (Inr [ast_Expr (ast_Num 1), ast_OtherStmt ''Pass'']) None
     = Inl (ValueError ''Can only process single expression.'')"
  using parse_query_rejects_statements
    [where statements = "[ast_Expr (ast_Num 1), ast_OtherStmt ''Pass'']" and names = None]
  by simp

text \<open>Only a name node is visited to a name node.\<close>

lemma process_BoolOp_not_Name: "process_BoolOp k xs \<noteq> Inr (AstName n)"
  by (simp add: process_BoolOp_def split: option.splits list.splits)

lemma process_BinOp_not_Name: "process_BinOp a k b \<noteq> Inr (AstName n)"
  by (simp add: process_BinOp_def split: pyval.splits)

lemma process_Compare_not_Name: "process_Compare names a ps \<noteq> Inr (AstName n)"
  by (simp add: process_Compare_def split: list.splits sum.splits prod.splits)

lemma process_List_not_Name: "process_List names xs \<noteq> Inr (AstName n)"
  by (simp add: process_List_def split: sum.splits)

lemma process_Tuple_not_Name: "process_Tuple names xs \<noteq> Inr (AstName n)"
  by (auto simp: process_Tuple_def process_List_def split: sum.splits pyval.splits)

lemma visit_AstName: "AstQuery_visit names e = Inr (AstName n) \<Longrightarrow> is_Name e"
  by (cases e)
     (auto simp: process_BoolOp_not_Name process_BinOp_not_Name process_Compare_not_Name
        process_List_not_Name process_Tuple_not_Name split: sum.splits)

lemma index_name_not_Name:
  "AstQuery_visit names e = Inr x \<Longrightarrow> \<not> is_Name e \<Longrightarrow>
   AstQuery_index_name x = Inl (ValueError ''Index name must be a name.'')"
  using visit_AstName [of names e]
  by (cases x) (auto simp: AstQuery_index_name_def)

lemma visit_Compare_not_Name:
  assumes "visit_cmpop op = Inr c" and "\<not> is_Name (if c = Contains then r else l)"
  shows "isl (AstQuery_visit names (ast_Compare l [(op, r)]))"
    and "AstQuery_visit names l = Inr x \<Longrightarrow> AstQuery_visit names r = Inr y \<Longrightarrow>
         AstQuery_visit names (ast_Compare l [(op, r)])
           = Inl (ValueError ''Index name must be a name.'')"
proof -
  show "isl (AstQuery_visit names (ast_Compare l [(op, r)]))"
  proof (cases "AstQuery_visit names l")
    case (Inl e)
    then show ?thesis by simp
  next
    case L: (Inr x)
    show ?thesis
    proof (cases "AstQuery_visit names r")
      case (Inl e)
      with L assms show ?thesis by simp
    next
      case R: (Inr y)
      show ?thesis
      proof (cases "c = Contains")
        case True
        with assms have "AstQuery_index_name y = Inl (ValueError ''Index name must be a name.'')"
          using index_name_not_Name [OF R] by simp
        with L R assms True show ?thesis by (simp add: process_Compare_def)
      next
        case False
        with assms have "AstQuery_index_name x = Inl (ValueError ''Index name must be a name.'')"
          using index_name_not_Name [OF L] by simp
        with L R assms False show ?thesis by (simp add: process_Compare_def)
      qed
    qed
  qed
next
  assume L: "AstQuery_visit names l = Inr x" and R: "AstQuery_visit names r = Inr y"
  show "AstQuery_visit names (ast_Compare l [(op, r)])
           = Inl (ValueError ''Index name must be a name.'')"
  proof (cases "c = Contains")
    case True
    with assms have "AstQuery_index_name y = Inl (ValueError ''Index name must be a name.'')"
      using index_name_not_Name [OF R] by simp
    with L R assms True show ?thesis by (simp add: process_Compare_def)
  next
    case False
    with assms have "AstQuery_index_name x = Inl (ValueError ''Index name must be a name.'')"
      using index_name_not_Name [OF L] by simp
    with L R assms False show ?thesis by (simp add: process_Compare_def)
  qed
qed

text \<open>
  C10, as stated, fails: in \<^verbatim>\<open>[a] == 1\<close> the operand in index position is a list, not a
  bare name, and with \<^verbatim>\<open>a\<close> not in the table of names the compiler raises
  \<^verbatim>\<open>NameError("a")\<close> while it visits that operand, before the index name is looked at.
\<close>

theorem parse_query_index_not_name_operand_error:
  "is_Name (ast_List [ast_Name ''a'' ast_Load] ast_Load) = False \<and>
   parse_query
     (Inr [ast_Expr (ast_Compare (ast_List [ast_Name ''a'' ast_Load] ast_Load)
                                 [(ast_Eq, ast_Num 1)])]) None
     = Inl (NameError ''a'') \<and>
   parse_query
     (Inr [ast_Expr (ast_Compare (ast_List [ast_Name ''a'' ast_Load] ast_Load)
                                 [(ast_Eq, ast_Num 1)])]) None
     \<noteq> Inl (ValueError ''Index name must be a name.'')"
  by (simp add: parse_query_Expr process_List_def AstQuery_value_def)

text \<open>
  C10, amended. A comparison with one operator that the compiler handles, whose operand in
  index position (the right one for the membership test, the left one otherwise) is not a
  bare name, never compiles to a comparator: the compilation fails. The operands are
  visited first, the left one before the right one, and the error of the first operand
  that fails is the error of the compilation; when both operands are visited without an
  error it fails with \<^verbatim>\<open>ValueError("Index name must be a name.")\<close>.
\<close>

theorem parse_query_index_not_name:
  "visit_cmpop op = Inr c \<and> \<not> is_Name (if c = Contains then r else l) \<longrightarrow>
     isl (parse_query (Inr [ast_Expr (ast_Compare l [(op, r)])]) (Some table)) \<and>
     (AstQuery_visit table l = Inl e \<longrightarrow>
        parse_query (Inr [ast_Expr (ast_Compare l [(op, r)])]) (Some table) = Inl e) \<and>
     (AstQuery_visit table l = Inr x \<and> AstQuery_visit table r = Inl e \<longrightarrow>
        parse_query (Inr [ast_Expr (ast_Compare l [(op, r)])]) (Some table) = Inl e) \<and>
     (AstQuery_visit table l = Inr x \<and> AstQuery_visit table r = Inr y \<longrightarrow>
        parse_query (Inr [ast_Expr (ast_Compare l [(op, r)])]) (Some table)
          = Inl (ValueError ''Index name must be a name.''))"
proof (intro impI, elim conjE)
  assume a: "visit_cmpop op = Inr c" "\<not> is_Name (if c = Contains then r else l)"
  have "isl (AstQuery_visit table (ast_Compare l [(op, r)]))"
    using visit_Compare_not_Name(1) [OF a] .
  then obtain e' where "AstQuery_visit table (ast_Compare l [(op, r)]) = Inl e'"
    by (cases "AstQuery_visit table (ast_Compare l [(op, r)])") simp_all
  then have 1: "isl (parse_query (Inr [ast_Expr (ast_Compare l [(op, r)])]) (Some table))"
    by (simp only: parse_query_Expr option.case sum.case sum.disc)
  have 2: "AstQuery_visit table l = Inl e \<longrightarrow>
        parse_query (Inr [ast_Expr (ast_Compare l [(op, r)])]) (Some table) = Inl e"
    by (simp add: parse_query_Expr)
  have 3: "AstQuery_visit table l = Inr x \<and> AstQuery_visit table r = Inl e \<longrightarrow>
        parse_query (Inr [ast_Expr (ast_Compare l [(op, r)])]) (Some table) = Inl e"
    using a(1) by (simp add: parse_query_Expr)
  have 4: "AstQuery_visit table l = Inr x \<and> AstQuery_visit table r = Inr y \<longrightarrow>
        parse_query (Inr [ast_Expr (ast_Compare l [(op, r)])]) (Some table)
          = Inl (ValueError ''Index name must be a name.'')"
    using visit_Compare_not_Name(2) [OF a, of table x y]
    by (simp add: parse_query_Expr)
  from 1 2 3 4
  show "isl (parse_query (Inr [ast_Expr (ast_Compare l [(op, r)])]) (Some table)) \<and>
     (AstQuery_visit table l = Inl e \<longrightarrow>
        parse_query (Inr [ast_Expr (ast_Compare l [(op, r)])]) (Some table) = Inl e) \<and>
     (AstQuery_visit table l = Inr x \<and> AstQuery_visit table r = Inl e \<longrightarrow>
        parse_query (Inr [ast_Expr (ast_Compare l [(op, r)])]) (Some table) = Inl e) \<and>
     (AstQuery_visit table l = Inr x \<and> AstQuery_visit table r = Inr y \<longrightarrow>
        parse_query (Inr [ast_Expr (ast_Compare l [(op, r)])]) (Some table)
          = Inl (ValueError ''Index name must be a name.''))"
    by blast
qed

theorem parse_query_index_not_name_witness:
  "visit_cmpop ast_Eq = Inr Eq \<and> \<not> is_Name (ast_Num 1) \<and>
   parse_query (Inr [ast_Expr (ast_Compare (ast_Num 1) [(ast_Eq, ast_Num 2)])]) (Some Map.empty)
     = Inl (ValueError ''Index name must be a name.'') \<and>
   visit_cmpop ast_In = Inr Contains \<and> \<not> is_Name (ast_Str ''idx'') \<and>
   parse_query
     (Inr [ast_Expr (ast_Compare (ast_Name ''v'' ast_Load) [(ast_In, ast_Str ''idx'')])])
     (Some Map.empty)
     = Inl (ValueError ''Index name must be a name.'') \<and>
   \<not> is_Name (ast_List [ast_Name ''a'' ast_Load] ast_Load) \<and>
   AstQuery_visit Map.empty (ast_List [ast_Name ''a'' ast_Load] ast_Load) = Inl (NameError ''a'') \<and>
   parse_query
     (Inr [ast_Expr (ast_Compare (ast_List [ast_Name ''a'' ast_Load] ast_Load)
                                 [(ast_Eq, ast_Num 1)])]) (Some Map.empty)
     = Inl (NameError ''a'') \<and>
   AstQuery_visit Map.empty (ast_Other ''UnaryOp'' [ast_Other ''USub'' [], ast_Num 2])
     = Inl (ValueError ''Unable to parse expression.  Unhandled expression element: USub'') \<and>
   parse_query
     (Inr [ast_Expr (ast_Compare (ast_Num 1)
             [(ast_Eq, ast_Other ''UnaryOp'' [ast_Other ''USub'' [], ast_Num 2])])])
     (Some Map.empty)
     = Inl (ValueError ''Unable to parse expression.  Unhandled expression element: USub'')"
  using
    parse_query_index_not_name [where op = ast_Eq and c = Eq and l = "ast_Num 1"
      and r = "ast_Num 2" and table = Map.empty and x = "Num 1" and y = "Num 2"]
    parse_query_index_not_name [where op = ast_In and c = Contains
      and l = "ast_Name ''v'' ast_Load" and r = "ast_Str ''idx''" and table = Map.empty
      and x = "AstName ''v''" and y = "Str ''idx''"]
    parse_query_index_not_name [where op = ast_Eq and c = Eq
      and l = "ast_List [ast_Name ''a'' ast_Load] ast_Load" and r = "ast_Num 1"
      and table = Map.empty and e = "NameError ''a''"]
    parse_query_index_not_name [where op = ast_Eq and c = Eq and l = "ast_Num 1"
      and r = "ast_Other ''UnaryOp'' [ast_Other ''USub'' [], ast_Num 2]"
      and table = Map.empty and x = "Num 1"
      and e = "ValueError ''Unable to parse expression.  Unhandled expression element: USub''"]
  by (simp add: process_List_def AstQuery_value_def unhandled_def)

end
